theory Spec2Isabelle
  imports Complex_Main
begin

section \<open>Dr. Radif: the prescription requester of \<^verbatim>\<open>drradif.py\<close>\<close>

text \<open>
  The program is one function, \<^verbatim>\<open>get_persian_music_prescription\<close>, and a script block
  that calls it on four scenarios. The function builds a chat prompt from a fixed
  knowledge base and the caller's text, sends it through a chat model and parses the
  completion into a \<^verbatim>\<open>MusicPrescription\<close>.

  What the function calls is library code (LangChain, the OpenAI client, Pydantic). The
  embedding keeps the source's own data and control flow as definitions and takes the
  behaviour of the libraries as a record of functions, \<open>libraries\<close>, so that every
  statement below holds for whatever the chat model answers. Python text is modelled as
  \<open>string\<close>, the UTF-8 bytes of the text.
\<close>

subsection \<open>The output structure\<close>

text \<open>\<^verbatim>\<open>class MusicPrescription(BaseModel)\<close>: six required fields of type \<^verbatim>\<open>str\<close>.\<close>

record MusicPrescription =
  diagnosis :: string
  mode_name :: string
  archetype :: string
  neuroscience_mechanism :: string
  search_query :: string
  activity_suggestion :: string

text \<open>The declared fields in order, each with the text of its \<^verbatim>\<open>Field(description=...)\<close>.\<close>

definition MusicPrescription_schema :: "(string \<times> string) list" where
  "MusicPrescription_schema =
     [(''diagnosis'', ''A brief, empathetic analysis of the user's emotional state.''),
      (''mode_name'', ''The name of the Dastgah or Avaz prescribed (e.g., 'Avaz-e Dashti').''),
      (''archetype'',
       ''The archetype of this mode (e.g., 'The Shepherd', 'The Warrior', 'The Hacker').''),
      (''neuroscience_mechanism'',
       ''The scientific explanation of why this works (e.g., Dopamine, Prolactin, Beta waves).''),
      (''search_query'',
       ''A specific search string for YouTube/Spotify (e.g., 'Kayhan Kalhor Dashti Improvisation').''),
      (''activity_suggestion'', ''What the user should do while listening.'')]"

subsection \<open>The knowledge base\<close>

text \<open>
  The module-level constant, character for character: the text between the triple quotes
  starts and ends with a line break, and its first line ends with a blank.
\<close>

definition PHARMACOPEIA_CONTEXT :: string where
  "PHARMACOPEIA_CONTEXT =
     ''\<newline>'' @
     ''You are 'Dr. Radif', a highly sophisticated Music Therapist specializing in the neuroscience of Persian Traditional Music. \<newline>'' @
     ''Your goal is to analyze the user's context/mood and prescribe the exact Persian musical mode (Dastgah or Avaz) to regulate their nervous system.\<newline>'' @
     ''\<newline>'' @
     ''Use this internal Pharmacopeia (Knowledge Base) to make your decision:\<newline>'' @
     ''\<newline>'' @
     ''1. **CONTEXT: Grief, Depression, Broken Heart, Rain**\<newline>'' @
     ''   - **RX:** Avaz-e Dashti (The Shepherd)\<newline>'' @
     ''   - **Mechanism:** Mimics human crying frequencies; triggers Prolactin release for 'The Good Cry'.\<newline>'' @
     ''\<newline>'' @
     ''2. **CONTEXT: Morning, Low Energy, Need Motivation, Sunrise**\<newline>'' @
     ''   - **RX:** Dastgah-e Mahur (The Sunrise) or Chahargah (The Warrior)\<newline>'' @
     ''   - **Mechanism:** Mahur triggers Dopamine (joy). Chahargah triggers Adrenaline (power/fight-or-flight).\<newline>'' @
     ''\<newline>'' @
     ''3. **CONTEXT: Nostalgia, Missing Home, Sunset, Autumn, Romantic Longing**\<newline>'' @
     ''   - **RX:** Avaz-e Bayat-e Isfahan (The Mystic) or Segah\<newline>'' @
     ''   - **Mechanism:** Uses microtones that stimulate the Hippocampus (memory) and Default Mode Network. Creates 'Saudade'.\<newline>'' @
     ''\<newline>'' @
     ''4. **CONTEXT: Anxiety, Panic, Chaos, Overwhelmed**\<newline>'' @
     ''   - **RX:** Dastgah-e Homayoun (The King)\<newline>'' @
     ''   - **Mechanism:** Majestic and gravity-heavy. Forces brainwaves from erratic Beta to focused Alpha. Grounding.\<newline>'' @
     ''\<newline>'' @
     ''5. **CONTEXT: Deep Focus, Coding, Math, Logic Work**\<newline>'' @
     ''   - **RX:** Dastgah-e Nava (The Mathematician) or Rast-Panjgah\<newline>'' @
     ''   - **Mechanism:** Complex, repetitive, chant-like structures. Stabilizes High-Beta waves. Creates 'Flow State'.\<newline>'' @
     ''\<newline>'' @
     ''6. **CONTEXT: Insomnia, Bedtime, Racing Thoughts**\<newline>'' @
     ''   - **RX:** Avaz-e Abu Ata (The Philosopher)\<newline>'' @
     ''   - **Mechanism:** Low-frequency bias, no sudden climaxes. Induces Delta waves.\<newline>'' @
     ''\<newline>'' @
     ''7. **CONTEXT: Vacation, Nature, Reset, Decompression**\<newline>'' @
     ''   - **RX:** Bayat-e Tork (The Traveler) or Afshari\<newline>'' @
     ''   - **Mechanism:** Linked to Sufi storytelling and open horizons. Breaks the urban 'grid'.\<newline>'' @
     ''\<newline>'' @
     ''**INSTRUCTIONS:**\<newline>'' @
     ''- Analyze the user's input for emotional nuance (e.g., 'bittersweet' is Isfahan, 'crushed' is Dashti).\<newline>'' @
     ''- Return the output strictly in the requested JSON format.\<newline>''"

subsection \<open>Exceptions and results\<close>

text \<open>
  Every exception that the libraries raise on these paths (a connection failure, an error
  status of the service, an output parser error, a formatting error) derives from
  \<^verbatim>\<open>Exception\<close>, which is what the \<^verbatim>\<open>except\<close> clause of the source catches. The
  source uses only the text \<^verbatim>\<open>str(e)\<close> of an exception.
\<close>

datatype py_exception = Exception (exception_text: string)

text \<open>
  The function returns a \<^verbatim>\<open>MusicPrescription\<close> or a \<^verbatim>\<open>str\<close>; the script tells them
  apart with \<^verbatim>\<open>isinstance\<close>. A call either returns such a value or lets an exception
  escape to its caller.
\<close>

datatype return_value = Rx MusicPrescription | Str string

datatype outcome = Returned return_value | Raised py_exception

subsection \<open>Prompt templates\<close>

text \<open>
  \<^verbatim>\<open>from_template\<close> reads its argument as a Python format string: \<^verbatim>\<open>{name}\<close> is a
  replacement field, \<^verbatim>\<open>{{\<close> and \<^verbatim>\<open>}}\<close> stand for one brace, any other character
  stands for itself. Formatting replaces each field by the value given under its name and
  fails with a \<^verbatim>\<open>KeyError\<close> on a name that has no value. The error texts are Python's.
\<close>

datatype piece = Text char | Slot string

function from_template :: "string \<Rightarrow> py_exception + piece list" where
  "from_template [] = Inr []"
| "from_template (c # cs) =
     (if c = CHR ''{'' then
        (case cs of
           [] \<Rightarrow> Inl (Exception ''Single '{' encountered in format string'')
         | d # ds \<Rightarrow>
             if d = CHR ''{'' then map_sum id ((#) (Text c)) (from_template ds)
             else
               (case dropWhile (\<lambda>x. x \<noteq> CHR ''}'') cs of
                  [] \<Rightarrow> Inl (Exception ''expected '}' before end of string'')
                | _ # rest \<Rightarrow>
                    map_sum id ((#) (Slot (takeWhile (\<lambda>x. x \<noteq> CHR ''}'') cs)))
                      (from_template rest)))
      else if c = CHR ''}'' then
        (case cs of
           [] \<Rightarrow> Inl (Exception ''Single '}' encountered in format string'')
         | d # ds \<Rightarrow>
             if d = CHR ''}'' then map_sum id ((#) (Text c)) (from_template ds)
             else Inl (Exception ''Single '}' encountered in format string''))
      else map_sum id ((#) (Text c)) (from_template cs))"
  by pat_completeness auto
termination
proof (relation "measure length")
  fix c :: char and cs x21 x22 x21a rest
  assume "dropWhile (\<lambda>x. x \<noteq> CHR ''}'') cs = x21a # rest"
  then have "length (x21a # rest) \<le> length cs"
    using length_dropWhile_le [of "\<lambda>x. x \<noteq> CHR ''}''" cs] by simp
  then show "(rest, c # cs) \<in> measure length" by simp
qed auto

fun format_pieces :: "piece list \<Rightarrow> (string \<rightharpoonup> string) \<Rightarrow> py_exception + string" where
  "format_pieces [] vars = Inr []"
| "format_pieces (Text c # ps) vars = map_sum id ((#) c) (format_pieces ps vars)"
| "format_pieces (Slot name # ps) vars =
     (case vars name of
        None \<Rightarrow> Inl (Exception ([CHR 0x27] @ name @ [CHR 0x27]))
      | Some v \<Rightarrow> map_sum id ((@) v) (format_pieces ps vars))"

subsection \<open>Completions and their validation\<close>

text \<open>
  A decoded JSON document. A number is kept as its literal; an object is the list of its
  items, each key once, as the decoded \<^verbatim>\<open>dict\<close> has them.
\<close>

datatype json =
  JNull
| JBool bool
| JNumber string
| JString string
| JArray "json list"
| JObject "(string \<times> json) list"

text \<open>
  Validation of one \<^verbatim>\<open>str\<close> field. Text is taken as it is, whatever its length: the
  class declares no length constraint and no validator. An object, an array and
  \<^verbatim>\<open>null\<close> are never text. For a number or a boolean the answer is the library's
  (\<open>lax\<close>): Pydantic 1 converts them to text, Pydantic 2 rejects them.
\<close>

fun str_field :: "(json \<Rightarrow> string option) \<Rightarrow> json \<Rightarrow> string option" where
  "str_field lax (JString s) = Some s"
| "str_field lax JNull = None"
| "str_field lax (JArray vs) = None"
| "str_field lax (JObject kvs) = None"
| "str_field lax v = lax v"

datatype field_error = Missing string | Not_Text string

fun field_errors :: "(json \<Rightarrow> string option) \<Rightarrow> (string \<times> json) list \<Rightarrow> string \<Rightarrow> field_error list" where
  "field_errors lax kvs name =
     (case map_of kvs name of
        None \<Rightarrow> [Missing name]
      | Some v \<Rightarrow> (case str_field lax v of None \<Rightarrow> [Not_Text name] | Some s \<Rightarrow> []))"

fun field_text :: "(json \<Rightarrow> string option) \<Rightarrow> (string \<times> json) list \<Rightarrow> string \<Rightarrow> string" where
  "field_text lax kvs name =
     (case map_of kvs name of
        None \<Rightarrow> []
      | Some v \<Rightarrow> (case str_field lax v of None \<Rightarrow> [] | Some s \<Rightarrow> s))"

text \<open>
  Validation of an object against the class: every declared field is required, items under
  other keys are ignored, and the errors of all fields are collected. A record is built
  only when there is no error.
\<close>

definition validate :: "(json \<Rightarrow> string option) \<Rightarrow> (string \<times> json) list \<Rightarrow> field_error list + MusicPrescription" where
  "validate lax kvs =
     (case concat (map (field_errors lax kvs) (map fst MusicPrescription_schema)) of
        [] \<Rightarrow>
          Inr \<lparr>diagnosis = field_text lax kvs ''diagnosis'',
               mode_name = field_text lax kvs ''mode_name'',
               archetype = field_text lax kvs ''archetype'',
               neuroscience_mechanism = field_text lax kvs ''neuroscience_mechanism'',
               search_query = field_text lax kvs ''search_query'',
               activity_suggestion = field_text lax kvs ''activity_suggestion''\<rparr>
      | e # es \<Rightarrow> Inl (e # es))"

datatype parse_failure = Not_Json | Not_An_Object | Invalid "field_error list"

subsection \<open>The libraries\<close>

text \<open>\<^verbatim>\<open>ChatOpenAI(temperature=0.7, model="gpt-4-turbo", openai_api_key=...)\<close>: the
  keyword arguments of the source; the decimal literal \<^verbatim>\<open>0.7\<close> is the rational 7/10.\<close>

record llm_config =
  temperature :: rat
  model :: string
  openai_api_key :: string

datatype message = SystemMessage string | HumanMessage string

text \<open>The method of the chain that the source calls is \<^verbatim>\<open>invoke\<close>, which gives the whole
  completion at once; \<^verbatim>\<open>stream\<close> is the method that would give it in chunks.\<close>

datatype chain_method = Invoke | Stream

record request =
  req_config :: llm_config
  req_messages :: "message list"
  req_method :: chain_method

text \<open>
  The behaviour the source relies on and does not define. \<open>'w\<close> is the state of the world
  behind the chat model, so that the same request may be answered differently each time.
  \<^item> \<open>ChatOpenAI_init\<close>: the constructor of the client, which may refuse its arguments;
  \<^item> \<open>round_trip\<close>: one request sent to the reasoning service and its answer, the
    completion or an exception (no connection, an error status);
  \<^item> \<open>max_retries\<close>: how many times the client sends a failed request again. The source
    gives the constructor no \<^verbatim>\<open>max_retries\<close>, so the number is the client's default;
  \<^item> \<open>retryable\<close>: the exceptions after which the client sends the request again;
  \<^item> \<open>get_format_instructions\<close>: the text that the output parser renders from a schema;
  \<^item> \<open>json_decode\<close>: the JSON document of a completion, if it holds one;
  \<^item> \<open>lax_str\<close>: see \<open>str_field\<close>;
  \<^item> \<open>parse_error\<close>: the exception the output parser raises for a completion it rejects.
\<close>

record 'w libraries =
  ChatOpenAI_init :: "llm_config \<Rightarrow> py_exception option"
  round_trip :: "'w \<Rightarrow> llm_config \<Rightarrow> message list \<Rightarrow> (py_exception + string) \<times> 'w"
  max_retries :: nat
  retryable :: "py_exception \<Rightarrow> bool"
  get_format_instructions :: "(string \<times> string) list \<Rightarrow> string"
  json_decode :: "string \<Rightarrow> json option"
  lax_str :: "json \<Rightarrow> string option"
  parse_error :: "string \<Rightarrow> parse_failure \<Rightarrow> py_exception"

text \<open>
  The world: the state of the service, the log \<open>calls\<close> of the requests that the function
  hands to the chain (one for each \<^verbatim>\<open>chain.invoke\<close> that reaches the model), and the log
  \<open>round_trips\<close> of the requests that the client sends to the service (one for each
  attempt).
\<close>

record 'w world =
  service_state :: 'w
  calls :: "request list"
  round_trips :: "request list"

subsection \<open>The client\<close>

text \<open>
  The model step of the chain. The client sends the request; when the round trip raises a
  retryable exception and retries are left it sends the same request again to the service
  as it then is, and otherwise it gives the completion or raises the exception.
  \<open>attempts\<close> gives the reply, the state of the service and the number of round trips.
\<close>

fun attempts :: "'w libraries \<Rightarrow> nat \<Rightarrow> 'w \<Rightarrow> llm_config \<Rightarrow> message list \<Rightarrow> ((py_exception + string) \<times> 'w) \<times> nat" where
  "attempts lib 0 s cfg msgs = (round_trip lib s cfg msgs, 1)"
| "attempts lib (Suc left) s cfg msgs =
     (case round_trip lib s cfg msgs of
        (Inr completion, s') \<Rightarrow> ((Inr completion, s'), 1)
      | (Inl e, s') \<Rightarrow>
          if retryable lib e then
            (case attempts lib left s' cfg msgs of (result, n) \<Rightarrow> (result, Suc n))
          else ((Inl e, s'), 1))"

definition llm_invoke :: "'w libraries \<Rightarrow> 'w \<Rightarrow> llm_config \<Rightarrow> message list \<Rightarrow> (py_exception + string) \<times> 'w" where
  "llm_invoke lib s cfg msgs = fst (attempts lib (max_retries lib) s cfg msgs)"

definition sent :: "'w libraries \<Rightarrow> 'w \<Rightarrow> llm_config \<Rightarrow> message list \<Rightarrow> nat" where
  "sent lib s cfg msgs = snd (attempts lib (max_retries lib) s cfg msgs)"

subsection \<open>The chain\<close>

text \<open>\<^verbatim>\<open>PydanticOutputParser(pydantic_object=MusicPrescription)\<close> applied to a completion.\<close>

definition parser_parse :: "'w libraries \<Rightarrow> string \<Rightarrow> py_exception + MusicPrescription" where
  "parser_parse lib text =
     (case json_decode lib text of
        None \<Rightarrow> Inl (parse_error lib text Not_Json)
      | Some (JObject kvs) \<Rightarrow>
          (case validate (lax_str lib) kvs of
             Inl errs \<Rightarrow> Inl (parse_error lib text (Invalid errs))
           | Inr rx \<Rightarrow> Inr rx)
      | Some _ \<Rightarrow> Inl (parse_error lib text Not_An_Object))"

text \<open>The two message templates of \<^verbatim>\<open>ChatPromptTemplate.from_messages\<close>.\<close>

definition human_template :: string where
  "human_template =
     ''PATIENT SYMPTOMS: {input}\<newline>\<newline>'' @
     ''Analyze the symptoms and provide the prescription.\<newline>'' @
     ''{format_instructions}''"

definition prompt :: "py_exception + piece list \<times> piece list" where
  "prompt =
     (case from_template PHARMACOPEIA_CONTEXT of
        Inl e \<Rightarrow> Inl e
      | Inr system \<Rightarrow>
          (case from_template human_template of
             Inl e \<Rightarrow> Inl e
           | Inr human \<Rightarrow> Inr (system, human)))"

definition prompt_invoke :: "piece list \<times> piece list \<Rightarrow> (string \<rightharpoonup> string) \<Rightarrow> py_exception + message list" where
  "prompt_invoke p vars =
     (case format_pieces (fst p) vars of
        Inl e \<Rightarrow> Inl e
      | Inr system \<Rightarrow>
          (case format_pieces (snd p) vars of
             Inl e \<Rightarrow> Inl e
           | Inr human \<Rightarrow> Inr [SystemMessage system, HumanMessage human]))"

definition ChatOpenAI_config :: "string \<Rightarrow> llm_config" where
  "ChatOpenAI_config key = \<lparr>temperature = 7 / 10, model = ''gpt-4-turbo'', openai_api_key = key\<rparr>"

text \<open>\<^verbatim>\<open>chain.invoke\<close> for \<^verbatim>\<open>chain = prompt | llm | parser\<close>: the three steps in order,
  the first exception ending the run. The request is logged once as handed to the model
  step and once for each round trip that the client makes for it.\<close>

definition chain_invoke :: "'w libraries \<Rightarrow> llm_config \<Rightarrow> piece list \<times> piece list \<Rightarrow> (string \<rightharpoonup> string) \<Rightarrow> 'w world \<Rightarrow> (py_exception + MusicPrescription) \<times> 'w world" where
  "chain_invoke lib cfg p vars w =
     (case prompt_invoke p vars of
        Inl e \<Rightarrow> (Inl e, w)
      | Inr msgs \<Rightarrow>
          (case llm_invoke lib (service_state w) cfg msgs of
             (reply, s) \<Rightarrow>
               (let request = \<lparr>req_config = cfg, req_messages = msgs, req_method = Invoke\<rparr>;
                    w' = \<lparr>service_state = s,
                          calls = calls w @ [request],
                          round_trips = round_trips w @
                            replicate (sent lib (service_state w) cfg msgs) request\<rparr>
                in case reply of
                     Inl e \<Rightarrow> (Inl e, w')
                   | Inr text \<Rightarrow> (parser_parse lib text, w'))))"

subsection \<open>The function\<close>

text \<open>
  \<^verbatim>\<open>get_persian_music_prescription(user_input, openai_api_key)\<close>. The client, the parser,
  the prompt and the chain are built before the \<^verbatim>\<open>try\<close>, so an exception raised there
  escapes; \<^verbatim>\<open>chain.invoke\<close> runs inside it, and any exception it raises becomes the
  returned text \<^verbatim>\<open>f"Error: {e}"\<close>.
\<close>

definition get_persian_music_prescription :: "'w libraries \<Rightarrow> string \<Rightarrow> string \<Rightarrow> 'w world \<Rightarrow> outcome \<times> 'w world" where
  "get_persian_music_prescription lib user_input key w =
     (case ChatOpenAI_init lib (ChatOpenAI_config key) of
        Some e \<Rightarrow> (Raised e, w)
      | None \<Rightarrow>
          (case prompt of
             Inl e \<Rightarrow> (Raised e, w)
           | Inr p \<Rightarrow>
               (case chain_invoke lib (ChatOpenAI_config key) p
                       [''input'' \<mapsto> user_input,
                        ''format_instructions'' \<mapsto>
                          get_format_instructions lib MusicPrescription_schema] w of
                  (Inr result, w') \<Rightarrow> (Returned (Rx result), w')
                | (Inl e, w') \<Rightarrow> (Returned (Str (''Error: '' @ exception_text e)), w'))))"

subsection \<open>The script\<close>

text \<open>The byte sequences that the print statements of the script start with.\<close>

definition icon_patient :: string where
  "icon_patient =
     [CHR 0xEF, CHR 0xA3, CHR 0xBF, CHR 0xC3, CHR 0xBC, CHR 0xC3, CHR 0xB3, CHR 0xC2,
      CHR 0xA3, CHR 0xC3, CHR 0x94, CHR 0xE2, CHR 0x88, CHR 0x8F, CHR 0xC3, CHR 0xA8]"

definition icon_rx :: string where
  "icon_rx = [CHR 0xEF, CHR 0xA3, CHR 0xBF, CHR 0xC3, CHR 0xBC, CHR 0xC3, CHR 0xAD, CHR 0xC3, CHR 0xA4]"

definition icon_why :: string where
  "icon_why =
     [CHR 0xEF, CHR 0xA3, CHR 0xBF, CHR 0xC3, CHR 0xBC, CHR 0xC3, CHR 0x9F, CHR 0xE2, CHR 0x80, CHR 0xA0]"

definition icon_search :: string where
  "icon_search = [CHR 0xEF, CHR 0xA3, CHR 0xBF, CHR 0xC3, CHR 0xBC, CHR 0xC3, CHR 0xAE, CHR 0xC3, CHR 0xA7]"

definition icon_do :: string where
  "icon_do = [CHR 0xEF, CHR 0xA3, CHR 0xBF, CHR 0xC3, CHR 0xBC, CHR 0xC3, CHR 0xAD, CHR 0xC2, CHR 0xB0]"

definition user_scenarios :: "string list" where
  "user_scenarios =
     [''I have to write 500 lines of Python code and I'm distracted.'',
      ''I just went through a breakup and it's raining outside.'',
      ''I'm feeling super anxious about a meeting and my heart is racing.'',
      ''I'm on a road trip in the desert and feeling philosophical.'']"

text \<open>What the script prints for a prescription: four lines and a rule of fifty dashes.\<close>

definition print_rx :: "MusicPrescription \<Rightarrow> string list" where
  "print_rx rx =
     [icon_rx @ '' RX: '' @ mode_name rx @ '' ('' @ archetype rx @ '')'',
      icon_why @ '' WHY: '' @ neuroscience_mechanism rx,
      icon_search @ '' SEARCH: '' @ [CHR 0x27] @ search_query rx @ [CHR 0x27],
      icon_do @ '' DO THIS: '' @ activity_suggestion rx,
      replicate 50 CHR ''-'']"

text \<open>
  The loop over the scenarios, with the lines printed so far. A returned text (an error)
  prints nothing; an exception that escapes the function ends the script.
\<close>

fun scenario_loop :: "'w libraries \<Rightarrow> string \<Rightarrow> string list \<Rightarrow> string list \<Rightarrow> 'w world \<Rightarrow> (py_exception option \<times> string list) \<times> 'w world" where
  "scenario_loop lib key [] out w = ((None, out), w)"
| "scenario_loop lib key (symptom # rest) out w =
     (let out' = out @ [''\<newline>'' @ icon_patient @ '' PATIENT: '' @ [CHR 0x27] @ symptom @ [CHR 0x27]]
      in case get_persian_music_prescription lib symptom key w of
           (Raised e, w') \<Rightarrow> ((Some e, out'), w')
         | (Returned (Rx rx), w') \<Rightarrow> scenario_loop lib key rest (out' @ print_rx rx) w'
         | (Returned (Str s), w') \<Rightarrow> scenario_loop lib key rest out' w')"

text \<open>
  The \<^verbatim>\<open>__main__\<close> block, given the value of \<^verbatim>\<open>os.getenv("OPENAI_API_KEY")\<close>:
  \<^verbatim>\<open>None\<close> when the variable is not set. \<^verbatim>\<open>not my_api_key\<close> holds for \<^verbatim>\<open>None\<close>
  and for the empty text. The result is the escaped exception, if any, the printed lines
  and the world.
\<close>

definition main :: "'w libraries \<Rightarrow> string option \<Rightarrow> 'w world \<Rightarrow> (py_exception option \<times> string list) \<times> 'w world" where
  "main lib my_api_key w =
     (case my_api_key of
        None \<Rightarrow> ((None, [''Please set your OPENAI_API_KEY environment variable.'']), w)
      | Some key \<Rightarrow>
          if key = [] then
            ((None, [''Please set your OPENAI_API_KEY environment variable.'']), w)
          else scenario_loop lib key user_scenarios [''--- DR. RADIF IS LISTENING ---''] w)"

subsection \<open>A scripted service for concrete runs\<close>

text \<open>
  A stand-in for the libraries with which the definitions can be run: the service answers
  from a script of replies and fails to connect when the script is used up, the client
  refuses an empty key and retries twice after a connection failure or a rate limit, and
  the decoder knows five completions.
\<close>

definition quoted :: "string \<Rightarrow> string" where
  "quoted s = [CHR 0x22] @ s @ [CHR 0x22]"

definition member :: "string \<Rightarrow> string \<Rightarrow> string" where
  "member k v = quoted k @ '': '' @ quoted v"

definition completion_dashti :: string where
  "completion_dashti =
     ''{'' @ member ''diagnosis'' ''Heartbreak.'' @ '', '' @
     member ''mode_name'' ''Avaz-e Dashti'' @ '', '' @
     member ''archetype'' ''The Shepherd'' @ '', '' @
     member ''neuroscience_mechanism'' ''Prolactin release'' @ '', '' @
     member ''search_query'' ''Kayhan Kalhor Dashti Improvisation'' @ '', '' @
     member ''activity_suggestion'' ''Let yourself cry.'' @ ''}''"

definition completion_blank :: string where
  "completion_blank =
     ''{'' @ member ''diagnosis'' [] @ '', '' @
     member ''mode_name'' [] @ '', '' @
     member ''archetype'' [] @ '', '' @
     member ''neuroscience_mechanism'' [] @ '', '' @
     member ''search_query'' [] @ '', '' @
     member ''activity_suggestion'' [] @ ''}''"

definition completion_no_archetype :: string where
  "completion_no_archetype =
     ''{'' @ member ''diagnosis'' ''Heartbreak.'' @ '', '' @
     member ''mode_name'' ''Avaz-e Dashti'' @ '', '' @
     member ''neuroscience_mechanism'' ''Prolactin release'' @ '', '' @
     member ''search_query'' ''Kayhan Kalhor Dashti Improvisation'' @ '', '' @
     member ''activity_suggestion'' ''Let yourself cry.'' @ ''}''"

definition completion_nested :: string where
  "completion_nested =
     ''{'' @ member ''diagnosis'' ''Heartbreak.'' @ '', '' @
     quoted ''mode_name'' @ '': {'' @ member ''name'' ''Avaz-e Dashti'' @ ''}, '' @
     member ''archetype'' ''The Shepherd'' @ '', '' @
     member ''neuroscience_mechanism'' ''Prolactin release'' @ '', '' @
     member ''search_query'' ''Kayhan Kalhor Dashti Improvisation'' @ '', '' @
     member ''activity_suggestion'' ''Let yourself cry.'' @ ''}''"

definition completion_number :: string where
  "completion_number =
     ''{'' @ member ''diagnosis'' ''Heartbreak.'' @ '', '' @
     quoted ''mode_name'' @ '': 7, '' @
     member ''archetype'' ''The Shepherd'' @ '', '' @
     member ''neuroscience_mechanism'' ''Prolactin release'' @ '', '' @
     member ''search_query'' ''Kayhan Kalhor Dashti Improvisation'' @ '', '' @
     member ''activity_suggestion'' ''Let yourself cry.'' @ ''}''"

definition completion_prose :: string where
  "completion_prose = ''You should listen to Avaz-e Dashti tonight.''"

definition scripted_decode :: "string \<Rightarrow> json option" where
  "scripted_decode text =
     (if text = completion_dashti then
        Some (JObject
          [(''diagnosis'', JString ''Heartbreak.''),
           (''mode_name'', JString ''Avaz-e Dashti''),
           (''archetype'', JString ''The Shepherd''),
           (''neuroscience_mechanism'', JString ''Prolactin release''),
           (''search_query'', JString ''Kayhan Kalhor Dashti Improvisation''),
           (''activity_suggestion'', JString ''Let yourself cry.'')])
      else if text = completion_blank then
        Some (JObject
          [(''diagnosis'', JString []),
           (''mode_name'', JString []),
           (''archetype'', JString []),
           (''neuroscience_mechanism'', JString []),
           (''search_query'', JString []),
           (''activity_suggestion'', JString [])])
      else if text = completion_no_archetype then
        Some (JObject
          [(''diagnosis'', JString ''Heartbreak.''),
           (''mode_name'', JString ''Avaz-e Dashti''),
           (''neuroscience_mechanism'', JString ''Prolactin release''),
           (''search_query'', JString ''Kayhan Kalhor Dashti Improvisation''),
           (''activity_suggestion'', JString ''Let yourself cry.'')])
      else if text = completion_nested then
        Some (JObject
          [(''diagnosis'', JString ''Heartbreak.''),
           (''mode_name'', JObject [(''name'', JString ''Avaz-e Dashti'')]),
           (''archetype'', JString ''The Shepherd''),
           (''neuroscience_mechanism'', JString ''Prolactin release''),
           (''search_query'', JString ''Kayhan Kalhor Dashti Improvisation''),
           (''activity_suggestion'', JString ''Let yourself cry.'')])
      else if text = completion_number then
        Some (JObject
          [(''diagnosis'', JString ''Heartbreak.''),
           (''mode_name'', JNumber ''7''),
           (''archetype'', JString ''The Shepherd''),
           (''neuroscience_mechanism'', JString ''Prolactin release''),
           (''search_query'', JString ''Kayhan Kalhor Dashti Improvisation''),
           (''activity_suggestion'', JString ''Let yourself cry.'')])
      else None)"

type_synonym script = "(py_exception + string) list"

definition scripted :: "script libraries" where
  "scripted =
     \<lparr>ChatOpenAI_init =
        (\<lambda>cfg. if openai_api_key cfg = [] then Some (Exception ''Did not find openai_api_key'')
               else None),
      round_trip =
        (\<lambda>s cfg msgs. case s of
           [] \<Rightarrow> (Inl (Exception ''Connection error.''), [])
         | r # rs \<Rightarrow> (r, rs)),
      max_retries = 2,
      retryable =
        (\<lambda>e. e = Exception ''Connection error.'' \<or> e = Exception ''Rate limit reached.''),
      get_format_instructions = (\<lambda>schema. ''Fields: '' @ concat (map (\<lambda>f. fst f @ '';'') schema)),
      json_decode = scripted_decode,
      lax_str = (\<lambda>v. None),
      parse_error =
        (\<lambda>text failure. Exception (''Failed to parse MusicPrescription from completion '' @ text))\<rparr>"

definition fresh :: "script \<Rightarrow> script world" where
  "fresh replies = \<lparr>service_state = replies, calls = [], round_trips = []\<rparr>"

section \<open>Properties\<close>

subsection \<open>The prompt\<close>

text \<open>
  A template without braces has no replacement field and formats to itself. The knowledge
  base is such a text, so the system message is the knowledge base, whatever the inputs.
\<close>

lemma from_template_plain:
  "CHR ''{'' \<notin> set s \<Longrightarrow> CHR ''}'' \<notin> set s \<Longrightarrow> from_template s = Inr (map Text s)"
  by (induction s) auto

lemma format_pieces_Text:
  "format_pieces (map Text s @ ps) vars = map_sum id ((@) s) (format_pieces ps vars)"
proof (induction s)
  case Nil
  show ?case by (cases "format_pieces ps vars") simp_all
next
  case (Cons c s)
  then show ?case by (cases "format_pieces ps vars") simp_all
qed

lemma PHARMACOPEIA_CONTEXT_plain:
  "CHR ''{'' \<notin> set PHARMACOPEIA_CONTEXT" "CHR ''}'' \<notin> set PHARMACOPEIA_CONTEXT"
  by (simp_all add: PHARMACOPEIA_CONTEXT_def)

lemma human_template_pieces:
  "from_template human_template =
     Inr (map Text ''PATIENT SYMPTOMS: '' @
          Slot ''input'' #
          map Text ''\<newline>\<newline>Analyze the symptoms and provide the prescription.\<newline>'' @
          [Slot ''format_instructions''])"
  by (simp add: human_template_def)

lemma prompt_eq:
  "prompt =
     Inr (map Text PHARMACOPEIA_CONTEXT,
          map Text ''PATIENT SYMPTOMS: '' @
          Slot ''input'' #
          map Text ''\<newline>\<newline>Analyze the symptoms and provide the prescription.\<newline>'' @
          [Slot ''format_instructions''])"
  unfolding prompt_def
  by (simp only: from_template_plain [OF PHARMACOPEIA_CONTEXT_plain] human_template_pieces sum.case)


lemma prompt_invoke_eq:
  "prompt_invoke
     (map Text PHARMACOPEIA_CONTEXT,
      map Text ''PATIENT SYMPTOMS: '' @
      Slot ''input'' #
      map Text ''\<newline>\<newline>Analyze the symptoms and provide the prescription.\<newline>'' @
      [Slot ''format_instructions''])
     [''input'' \<mapsto> u, ''format_instructions'' \<mapsto> f] =
   Inr [SystemMessage PHARMACOPEIA_CONTEXT,
        HumanMessage (''PATIENT SYMPTOMS: '' @ u @
          ''\<newline>\<newline>Analyze the symptoms and provide the prescription.\<newline>'' @ f)]"
proof -
  have sys: "format_pieces (map Text PHARMACOPEIA_CONTEXT) vars = Inr PHARMACOPEIA_CONTEXT" for vars
    using format_pieces_Text [of PHARMACOPEIA_CONTEXT "[]" vars] by simp
  show ?thesis
    unfolding prompt_invoke_def fst_conv snd_conv sys
    by (simp add: format_pieces_Text)
qed

lemma run_accepted:
  fixes lib :: "'w libraries"
  defines "msgs \<equiv> \<lambda>u. [SystemMessage PHARMACOPEIA_CONTEXT,
        HumanMessage (''PATIENT SYMPTOMS: '' @ u @
          ''\<newline>\<newline>Analyze the symptoms and provide the prescription.\<newline>'' @
          get_format_instructions lib MusicPrescription_schema)]"
  assumes "ChatOpenAI_init lib (ChatOpenAI_config key) = None"
  shows "get_persian_music_prescription lib u key w =
     (Returned
        (case fst (llm_invoke lib (service_state w) (ChatOpenAI_config key) (msgs u)) of
           Inl e \<Rightarrow> Str (''Error: '' @ exception_text e)
         | Inr text \<Rightarrow>
             (case parser_parse lib text of
                Inl e \<Rightarrow> Str (''Error: '' @ exception_text e)
              | Inr rx \<Rightarrow> Rx rx)),
      \<lparr>service_state = snd (llm_invoke lib (service_state w) (ChatOpenAI_config key) (msgs u)),
       calls = calls w @
         [\<lparr>req_config = ChatOpenAI_config key, req_messages = msgs u, req_method = Invoke\<rparr>],
       round_trips = round_trips w @
         replicate (sent lib (service_state w) (ChatOpenAI_config key) (msgs u))
           \<lparr>req_config = ChatOpenAI_config key, req_messages = msgs u, req_method = Invoke\<rparr>\<rparr>)"
proof -
  have "chain_invoke lib cfg
          (map Text PHARMACOPEIA_CONTEXT,
           map Text ''PATIENT SYMPTOMS: '' @
           Slot ''input'' #
           map Text ''\<newline>\<newline>Analyze the symptoms and provide the prescription.\<newline>'' @
           [Slot ''format_instructions''])
          [''input'' \<mapsto> u,
           ''format_instructions'' \<mapsto> get_format_instructions lib MusicPrescription_schema] w =
        (case fst (llm_invoke lib (service_state w) cfg (msgs u)) of
           Inl e \<Rightarrow> Inl e
         | Inr text \<Rightarrow> parser_parse lib text,
         \<lparr>service_state = snd (llm_invoke lib (service_state w) cfg (msgs u)),
          calls = calls w @ [\<lparr>req_config = cfg, req_messages = msgs u, req_method = Invoke\<rparr>],
          round_trips = round_trips w @
            replicate (sent lib (service_state w) cfg (msgs u))
              \<lparr>req_config = cfg, req_messages = msgs u, req_method = Invoke\<rparr>\<rparr>)"
    for cfg
    unfolding chain_invoke_def prompt_invoke_eq msgs_def
    by (simp add: Let_def split: prod.splits sum.splits)
  then show ?thesis
    using assms(2)
    unfolding get_persian_music_prescription_def prompt_eq
    by (simp split: sum.splits)
qed

lemma run_refused:
  "ChatOpenAI_init lib (ChatOpenAI_config key) = Some e \<Longrightarrow>
   get_persian_music_prescription lib u key w = (Raised e, w)"
  by (simp add: get_persian_music_prescription_def)

subsection \<open>The client\<close>



lemma attempts_final:
  assumes "round_trip lib s cfg msgs = (r, s')"
    and "(\<exists>completion. r = Inr completion) \<or> (\<exists>e. r = Inl e \<and> \<not> retryable lib e)"
  shows "attempts lib n s cfg msgs = ((r, s'), 1)"
  using assms by (cases n) auto

lemma attempts_no_retries:
  "attempts lib 0 s cfg msgs = (round_trip lib s cfg msgs, 1)"
  by simp

subsection \<open>Validation\<close>

text \<open>
  A record comes out of validation only when the object has an item under each declared
  name that is accepted as text, and then every field is that text. One field in error is
  enough for the whole object to be rejected.
\<close>

lemma field_errors_empty:
  "field_errors lax kvs name = [] \<Longrightarrow>
   \<exists>v. map_of kvs name = Some v \<and> str_field lax v = Some (field_text lax kvs name)"
  by (auto split: option.splits)

lemma validate_accepts:
  assumes "validate lax kvs = Inr rx"
  shows "(\<exists>v. map_of kvs ''diagnosis'' = Some v \<and> str_field lax v = Some (diagnosis rx)) \<and>
         (\<exists>v. map_of kvs ''mode_name'' = Some v \<and> str_field lax v = Some (mode_name rx)) \<and>
         (\<exists>v. map_of kvs ''archetype'' = Some v \<and> str_field lax v = Some (archetype rx)) \<and>
         (\<exists>v. map_of kvs ''neuroscience_mechanism'' = Some v \<and>
              str_field lax v = Some (neuroscience_mechanism rx)) \<and>
         (\<exists>v. map_of kvs ''search_query'' = Some v \<and> str_field lax v = Some (search_query rx)) \<and>
         (\<exists>v. map_of kvs ''activity_suggestion'' = Some v \<and>
              str_field lax v = Some (activity_suggestion rx))"
proof -
  let ?errs = "concat (map (field_errors lax kvs) (map fst MusicPrescription_schema))"
  from assms have empty: "?errs = []" and
    rx: "rx = \<lparr>diagnosis = field_text lax kvs ''diagnosis'',
               mode_name = field_text lax kvs ''mode_name'',
               archetype = field_text lax kvs ''archetype'',
               neuroscience_mechanism = field_text lax kvs ''neuroscience_mechanism'',
               search_query = field_text lax kvs ''search_query'',
               activity_suggestion = field_text lax kvs ''activity_suggestion''\<rparr>"
    unfolding validate_def by (auto split: list.splits)
  have each: "field_errors lax kvs name = []" if "name \<in> set (map fst MusicPrescription_schema)" for name
    using empty that unfolding concat_eq_Nil_conv by auto
  have names: "map fst MusicPrescription_schema =
    [''diagnosis'', ''mode_name'', ''archetype'', ''neuroscience_mechanism'', ''search_query'',
     ''activity_suggestion'']"
    by (simp add: MusicPrescription_schema_def)
  have "field_errors lax kvs ''diagnosis'' = []" "field_errors lax kvs ''mode_name'' = []"
    "field_errors lax kvs ''archetype'' = []" "field_errors lax kvs ''neuroscience_mechanism'' = []"
    "field_errors lax kvs ''search_query'' = []" "field_errors lax kvs ''activity_suggestion'' = []"
    by (rule each, simp only: names, simp)+
  from this [THEN field_errors_empty] show ?thesis
    unfolding rx by simp
qed

lemma validate_rejects:
  assumes "name \<in> set (map fst MusicPrescription_schema)" and "field_errors lax kvs name \<noteq> []"
  shows "\<exists>errs. validate lax kvs = Inl errs"
proof -
  have "concat (map (field_errors lax kvs) (map fst MusicPrescription_schema)) \<noteq> []"
    using assms unfolding concat_eq_Nil_conv by auto
  then show ?thesis
    unfolding validate_def by (auto split: list.splits)
qed

lemma parser_parse_accepts:
  "parser_parse lib text = Inr rx \<Longrightarrow>
   \<exists>kvs. json_decode lib text = Some (JObject kvs) \<and> validate (lax_str lib) kvs = Inr rx"
  unfolding parser_parse_def
  by (auto split: option.splits json.splits sum.splits)

lemma parser_parse_rejects:
  assumes "json_decode lib raw = None \<or>
     (\<exists>v. json_decode lib raw = Some v \<and> (\<forall>kvs. v \<noteq> JObject kvs)) \<or>
     (\<exists>kvs name. json_decode lib raw = Some (JObject kvs) \<and>
        name \<in> set (map fst MusicPrescription_schema) \<and>
        (map_of kvs name = None \<or> map_of kvs name = Some JNull \<or>
         (\<exists>vs. map_of kvs name = Some (JArray vs)) \<or>
         (\<exists>items. map_of kvs name = Some (JObject items)) \<or>
         (\<exists>v. map_of kvs name = Some v \<and> (\<forall>s. v \<noteq> JString s) \<and> lax_str lib v = None)))"
  shows "\<exists>failure. parser_parse lib raw = Inl (parse_error lib raw failure)"
  using assms
proof (elim disjE exE conjE)
  assume "json_decode lib raw = None"
  then show ?thesis by (auto simp: parser_parse_def)
next
  fix v assume "json_decode lib raw = Some v" "\<forall>kvs. v \<noteq> JObject kvs"
  then show ?thesis by (cases v) (auto simp: parser_parse_def)
next
  fix kvs name
  assume d: "json_decode lib raw = Some (JObject kvs)"
    and n: "name \<in> set (map fst MusicPrescription_schema)"
  {
    assume "field_errors (lax_str lib) kvs name \<noteq> []"
    from validate_rejects [OF n this] d have ?thesis
      by (auto simp: parser_parse_def)
  } note rejected = this
  {
    assume "map_of kvs name = None"
    then show ?thesis by (intro rejected) simp
  next
    assume "map_of kvs name = Some JNull"
    then show ?thesis by (intro rejected) simp
  next
    fix vs assume "map_of kvs name = Some (JArray vs)"
    then show ?thesis by (intro rejected) simp
  next
    fix items assume "map_of kvs name = Some (JObject items)"
    then show ?thesis by (intro rejected) simp
  next
    fix v assume v: "map_of kvs name = Some v" "\<forall>s. v \<noteq> JString s" "lax_str lib v = None"
    then have "str_field (lax_str lib) v = None" by (cases v) simp_all
    with v(1) show ?thesis by (intro rejected) simp
  }
qed

subsection \<open>The log of requests\<close>

text \<open>
  A call appends at most one request to the log of the chain, and a sequence of calls
  only such requests: each has the configuration of the source, goes through \<^verbatim>\<open>invoke\<close>, and
  carries the knowledge base as its system message.
\<close>

lemma calls_grow:
  fixes lib :: "'w libraries"
  shows "\<exists>cs. calls (snd (get_persian_music_prescription lib user_input key w)) = calls w @ cs \<and>
     length cs \<le> 1 \<and>
     (\<forall>c\<in>set cs. req_config c = ChatOpenAI_config key \<and> req_method c = Invoke \<and>
        (\<exists>human. req_messages c = [SystemMessage PHARMACOPEIA_CONTEXT, HumanMessage human]))"
proof (cases "ChatOpenAI_init lib (ChatOpenAI_config key)")
  case None
  show ?thesis by (simp add: run_accepted [OF None])
next
  case (Some e)
  show ?thesis by (simp add: run_refused [OF Some])
qed

lemma calls_fold:
  fixes lib :: "'w libraries"
  shows "\<exists>cs. calls (fold (\<lambda>(user_input, key) w. snd (get_persian_music_prescription lib user_input key w))
              inputs w) = calls w @ cs \<and>
     (\<forall>c\<in>set cs. \<exists>human. req_messages c = [SystemMessage PHARMACOPEIA_CONTEXT, HumanMessage human])"
proof (induction inputs arbitrary: w)
  case Nil
  show ?case by simp
next
  case (Cons input inputs)
  obtain user_input key where input: "input = (user_input, key)" by (cases input)
  let ?w = "snd (get_persian_music_prescription lib user_input key w)"
  from calls_grow [of lib user_input key w] obtain cs where
    cs: "calls ?w = calls w @ cs"
      "\<forall>c\<in>set cs. \<exists>human. req_messages c = [SystemMessage PHARMACOPEIA_CONTEXT, HumanMessage human]"
    by blast
  from Cons.IH [of ?w] obtain ds where
    ds: "calls (fold (\<lambda>(user_input, key) w. snd (get_persian_music_prescription lib user_input key w))
              inputs ?w) = calls ?w @ ds"
      "\<forall>c\<in>set ds. \<exists>human. req_messages c = [SystemMessage PHARMACOPEIA_CONTEXT, HumanMessage human]"
    by blast
  have "calls (fold (\<lambda>(user_input, key) w. snd (get_persian_music_prescription lib user_input key w))
              (input # inputs) w) = calls w @ (cs @ ds)"
    using cs(1) ds(1) by (simp add: input)
  moreover have "\<forall>c\<in>set (cs @ ds).
      \<exists>human. req_messages c = [SystemMessage PHARMACOPEIA_CONTEXT, HumanMessage human]"
    using cs(2) ds(2) by auto
  ultimately show ?case by blast
qed

subsection \<open>Runs against the scripted service\<close>

lemma completions_distinct:
  "completion_blank \<noteq> completion_dashti" "completion_no_archetype \<noteq> completion_dashti"
  "completion_no_archetype \<noteq> completion_blank" "completion_nested \<noteq> completion_dashti"
  "completion_nested \<noteq> completion_blank" "completion_nested \<noteq> completion_no_archetype"
  "completion_number \<noteq> completion_dashti" "completion_number \<noteq> completion_blank"
  "completion_number \<noteq> completion_no_archetype" "completion_number \<noteq> completion_nested"
  "completion_prose \<noteq> completion_dashti" "completion_prose \<noteq> completion_blank"
  "completion_prose \<noteq> completion_no_archetype" "completion_prose \<noteq> completion_nested"
  "completion_prose \<noteq> completion_number"
  by (simp_all add: completion_dashti_def completion_blank_def completion_no_archetype_def
      completion_nested_def completion_number_def completion_prose_def member_def quoted_def)

lemma scripted_accepts: "ChatOpenAI_init scripted (ChatOpenAI_config ''sk-test'') = None"
  by (simp add: scripted_def ChatOpenAI_config_def)

lemma scripted_refuses:
  "ChatOpenAI_init scripted (ChatOpenAI_config []) = Some (Exception ''Did not find openai_api_key'')"
  by (simp add: scripted_def ChatOpenAI_config_def)

lemma scripted_attempts:
  "attempts scripted (max_retries scripted) (Inr completion # rs) cfg msgs =
     ((Inr completion, rs), 1)"
  "attempts scripted (max_retries scripted) [] cfg msgs =
     ((Inl (Exception ''Connection error.''), []), 3)"
  "attempts scripted (max_retries scripted)
     (Inl (Exception ''Rate limit reached.'') # Inr completion # rs) cfg msgs =
     ((Inr completion, rs), 2)"
  by (simp_all add: scripted_def numeral_2_eq_2)

lemma scripted_invoke:
  "llm_invoke scripted (service_state (fresh (Inr completion # rs))) cfg msgs = (Inr completion, rs)"
  "llm_invoke scripted (service_state (fresh [])) cfg msgs = (Inl (Exception ''Connection error.''), [])"
  by (simp_all add: llm_invoke_def scripted_attempts fresh_def)

lemma scripted_exhausted:
  "llm_invoke scripted [] cfg msgs = (Inl (Exception ''Connection error.''), [])"
  "sent scripted [] cfg msgs = 3"
  by (simp_all add: llm_invoke_def sent_def scripted_attempts)


lemma scripted_parse_blank:
  "parser_parse scripted completion_blank =
     Inr \<lparr>diagnosis = [], mode_name = [], archetype = [], neuroscience_mechanism = [],
          search_query = [], activity_suggestion = []\<rparr>"
  by (simp add: parser_parse_def scripted_def scripted_decode_def completions_distinct
      validate_def MusicPrescription_schema_def)

lemma scripted_parse_prose:
  "parser_parse scripted completion_prose =
     Inl (Exception (''Failed to parse MusicPrescription from completion '' @ completion_prose))"
  by (simp add: parser_parse_def scripted_def scripted_decode_def completions_distinct)

lemma scripted_parse_dashti:
  "parser_parse scripted completion_dashti =
     Inr \<lparr>diagnosis = ''Heartbreak.'', mode_name = ''Avaz-e Dashti'', archetype = ''The Shepherd'',
          neuroscience_mechanism = ''Prolactin release'',
          search_query = ''Kayhan Kalhor Dashti Improvisation'',
          activity_suggestion = ''Let yourself cry.''\<rparr>"
  by (simp add: parser_parse_def scripted_def scripted_decode_def validate_def
      MusicPrescription_schema_def)

lemma scripted_decode_number:
  "json_decode scripted completion_number =
     Some (JObject
       [(''diagnosis'', JString ''Heartbreak.''),
        (''mode_name'', JNumber ''7''),
        (''archetype'', JString ''The Shepherd''),
        (''neuroscience_mechanism'', JString ''Prolactin release''),
        (''search_query'', JString ''Kayhan Kalhor Dashti Improvisation''),
        (''activity_suggestion'', JString ''Let yourself cry.'')])"
  by (simp add: scripted_def scripted_decode_def completions_distinct)

lemma scripted_format:
  "get_format_instructions scripted MusicPrescription_schema =
     ''Fields: diagnosis;mode_name;archetype;neuroscience_mechanism;search_query;activity_suggestion;''"
  by (simp add: scripted_def MusicPrescription_schema_def)

text \<open>With a key in the environment the script does reach the service: one chain
  invocation per scenario, each with three round trips when no connection can be made.\<close>

lemma script_with_key_calls_service:
  "length (calls (snd (main scripted (Some ''sk-test'') (fresh [])))) = 4"
  "length (round_trips (snd (main scripted (Some ''sk-test'') (fresh [])))) = 12"
  by (simp_all add: main_def user_scenarios_def run_accepted [OF scripted_accepts]
      scripted_exhausted fresh_def Let_def)

section \<open>The claims\<close>

subsection \<open>C1: a returned record is complete\<close>

text \<open>
  C1 says that every field of a returned record is present and non-empty. The class
  declares plain \<^verbatim>\<open>str\<close> fields, and validation takes an empty text as it is: when the
  service answers with an object whose six items are empty texts, the call succeeds with
  a record of six empty fields.
\<close>

theorem empty_fields_counterexample:
  "fst (get_persian_music_prescription scripted ''I feel nothing.'' ''sk-test''
         (fresh [Inr completion_blank])) =
   Returned (Rx \<lparr>diagnosis = [], mode_name = [], archetype = [], neuroscience_mechanism = [],
                 search_query = [], activity_suggestion = []\<rparr>)"
  by (simp add: run_accepted [OF scripted_accepts] scripted_invoke scripted_parse_blank)

text \<open>
  C1, as the code has it: whenever the call returns a record, the service answered with a
  completion that decodes to an object holding an item under each of the six field names,
  each item accepted as text, and each field of the record is the text of its item. No
  field is missing or made up, so no partial record is returned; a field may be empty.
\<close>

theorem record_complete:
  fixes lib :: "'w libraries"
  assumes "fst (get_persian_music_prescription lib user_input key w) = Returned (Rx rx)"
  shows "\<exists>text kvs.
     fst (llm_invoke lib (service_state w) (ChatOpenAI_config key)
           [SystemMessage PHARMACOPEIA_CONTEXT,
            HumanMessage (''PATIENT SYMPTOMS: '' @ user_input @
              ''\<newline>\<newline>Analyze the symptoms and provide the prescription.\<newline>'' @
              get_format_instructions lib MusicPrescription_schema)]) = Inr text \<and>
     json_decode lib text = Some (JObject kvs) \<and>
     (\<exists>v. map_of kvs ''diagnosis'' = Some v \<and> str_field (lax_str lib) v = Some (diagnosis rx)) \<and>
     (\<exists>v. map_of kvs ''mode_name'' = Some v \<and> str_field (lax_str lib) v = Some (mode_name rx)) \<and>
     (\<exists>v. map_of kvs ''archetype'' = Some v \<and> str_field (lax_str lib) v = Some (archetype rx)) \<and>
     (\<exists>v. map_of kvs ''neuroscience_mechanism'' = Some v \<and>
          str_field (lax_str lib) v = Some (neuroscience_mechanism rx)) \<and>
     (\<exists>v. map_of kvs ''search_query'' = Some v \<and>
          str_field (lax_str lib) v = Some (search_query rx)) \<and>
     (\<exists>v. map_of kvs ''activity_suggestion'' = Some v \<and>
          str_field (lax_str lib) v = Some (activity_suggestion rx))"
proof (cases "ChatOpenAI_init lib (ChatOpenAI_config key)")
  case (Some e)
  with assms show ?thesis by (simp add: run_refused)
next
  case None
  let ?reply = "fst (llm_invoke lib (service_state w) (ChatOpenAI_config key)
           [SystemMessage PHARMACOPEIA_CONTEXT,
            HumanMessage (''PATIENT SYMPTOMS: '' @ user_input @
              ''\<newline>\<newline>Analyze the symptoms and provide the prescription.\<newline>'' @
              get_format_instructions lib MusicPrescription_schema)])"
  from assms obtain raw where reply: "?reply = Inr raw" and parsed: "parser_parse lib raw = Inr rx"
    unfolding run_accepted [OF None] fst_conv
    by (auto split: sum.splits)
  from parser_parse_accepts [OF parsed] obtain kvs where
    "json_decode lib raw = Some (JObject kvs)" "validate (lax_str lib) kvs = Inr rx"
    by blast
  with reply validate_accepts [of "lax_str lib" kvs rx] show ?thesis
    by blast
qed

theorem record_complete_witness:
  "fst (get_persian_music_prescription scripted ''I feel nothing.'' ''sk-test''
         (fresh [Inr completion_blank])) =
     Returned (Rx \<lparr>diagnosis = [], mode_name = [], archetype = [], neuroscience_mechanism = [],
                 search_query = [], activity_suggestion = []\<rparr>) \<and>
   (\<exists>kvs. json_decode scripted completion_blank = Some (JObject kvs) \<and>
      (\<exists>v. map_of kvs ''diagnosis'' = Some v \<and> str_field (lax_str scripted) v = Some []))"
proof -
  have run: "fst (get_persian_music_prescription scripted ''I feel nothing.'' ''sk-test''
         (fresh [Inr completion_blank])) =
     Returned (Rx \<lparr>diagnosis = [], mode_name = [], archetype = [], neuroscience_mechanism = [],
                 search_query = [], activity_suggestion = []\<rparr>)"
    by (simp add: run_accepted [OF scripted_accepts] scripted_invoke scripted_parse_blank)
  from record_complete [OF run] show ?thesis
    unfolding scripted_invoke fst_conv using run by auto
qed

subsection \<open>C2: failures of the service are returned, not raised\<close>

text \<open>
  C2 says that for every input the call never raises. The constructor of the client runs
  before the \<^verbatim>\<open>try\<close>, so an exception that it raises escapes to the caller: with a client
  that refuses an empty key, the call with the empty key ends in that exception and
  returns nothing.
\<close>

theorem constructor_failure_counterexample:
  "fst (get_persian_music_prescription scripted ''I am sad.'' [] (fresh [Inr completion_dashti])) =
     Raised (Exception ''Did not find openai_api_key'')"
  by (simp add: run_refused [OF scripted_refuses])

text \<open>
  C2, as the code has it: for every input for which the constructor of the client
  returns, and whatever the reasoning service does, the call returns a value and lets no
  exception escape. When the client raises (no connection, an error status, after its
  retries or at once when the exception is not retryable), and when the completion fails
  schema validation (no JSON document, not an object, a field missing, a field that is not
  text), the value is the text \<^verbatim>\<open>Error: \<close> followed by the text of that exception; it is
  never a record.
\<close>

theorem failures_are_returned:
  fixes lib :: "'w libraries"
  defines "msgs \<equiv> \<lambda>user_input.
     [SystemMessage PHARMACOPEIA_CONTEXT,
      HumanMessage (''PATIENT SYMPTOMS: '' @ user_input @
        ''\<newline>\<newline>Analyze the symptoms and provide the prescription.\<newline>'' @
        get_format_instructions lib MusicPrescription_schema)]"
  assumes "ChatOpenAI_init lib (ChatOpenAI_config key) = None"
  shows "(\<forall>e. fst (llm_invoke lib (service_state w) (ChatOpenAI_config key) (msgs user_input)) = Inl e \<longrightarrow>
            fst (get_persian_music_prescription lib user_input key w) =
              Returned (Str (''Error: '' @ exception_text e))) \<and>
         (\<forall>e s. round_trip lib (service_state w) (ChatOpenAI_config key) (msgs user_input) = (Inl e, s) \<longrightarrow>
            \<not> retryable lib e \<longrightarrow>
            fst (get_persian_music_prescription lib user_input key w) =
              Returned (Str (''Error: '' @ exception_text e))) \<and>
         (\<forall>raw e. fst (llm_invoke lib (service_state w) (ChatOpenAI_config key) (msgs user_input)) = Inr raw \<longrightarrow>
            parser_parse lib raw = Inl e \<longrightarrow>
            fst (get_persian_music_prescription lib user_input key w) =
              Returned (Str (''Error: '' @ exception_text e))) \<and>
         (\<forall>raw. fst (llm_invoke lib (service_state w) (ChatOpenAI_config key) (msgs user_input)) = Inr raw \<longrightarrow>
            (json_decode lib raw = None \<or>
             (\<exists>v. json_decode lib raw = Some v \<and> (\<forall>kvs. v \<noteq> JObject kvs)) \<or>
             (\<exists>kvs name. json_decode lib raw = Some (JObject kvs) \<and>
                name \<in> set (map fst MusicPrescription_schema) \<and>
                (map_of kvs name = None \<or> map_of kvs name = Some JNull \<or>
                 (\<exists>vs. map_of kvs name = Some (JArray vs)) \<or>
                 (\<exists>items. map_of kvs name = Some (JObject items)) \<or>
                 (\<exists>v. map_of kvs name = Some v \<and> (\<forall>s. v \<noteq> JString s) \<and>
                    lax_str lib v = None)))) \<longrightarrow>
            (\<exists>failure. fst (get_persian_music_prescription lib user_input key w) =
               Returned (Str (''Error: '' @ exception_text (parse_error lib raw failure))))) \<and>
         (\<forall>e. fst (get_persian_music_prescription lib user_input key w) \<noteq> Raised e)"
proof (intro conjI allI impI)
  fix e
  assume "fst (llm_invoke lib (service_state w) (ChatOpenAI_config key) (msgs user_input)) = Inl e"
  then show "fst (get_persian_music_prescription lib user_input key w) =
      Returned (Str (''Error: '' @ exception_text e))"
    unfolding run_accepted [OF assms(2)] msgs_def fst_conv by simp
next
  fix e s
  assume rt: "round_trip lib (service_state w) (ChatOpenAI_config key) (msgs user_input) = (Inl e, s)"
    and "\<not> retryable lib e"
  then have "llm_invoke lib (service_state w) (ChatOpenAI_config key) (msgs user_input) = (Inl e, s)"
    unfolding llm_invoke_def by (subst attempts_final [OF rt]) auto
  then show "fst (get_persian_music_prescription lib user_input key w) =
      Returned (Str (''Error: '' @ exception_text e))"
    unfolding run_accepted [OF assms(2)] msgs_def fst_conv by simp
next
  fix raw e
  assume "fst (llm_invoke lib (service_state w) (ChatOpenAI_config key) (msgs user_input)) = Inr raw"
    "parser_parse lib raw = Inl e"
  then show "fst (get_persian_music_prescription lib user_input key w) =
      Returned (Str (''Error: '' @ exception_text e))"
    unfolding run_accepted [OF assms(2)] msgs_def fst_conv by simp
next
  fix raw
  assume reply: "fst (llm_invoke lib (service_state w) (ChatOpenAI_config key) (msgs user_input)) = Inr raw"
    and "json_decode lib raw = None \<or>
             (\<exists>v. json_decode lib raw = Some v \<and> (\<forall>kvs. v \<noteq> JObject kvs)) \<or>
             (\<exists>kvs name. json_decode lib raw = Some (JObject kvs) \<and>
                name \<in> set (map fst MusicPrescription_schema) \<and>
                (map_of kvs name = None \<or> map_of kvs name = Some JNull \<or>
                 (\<exists>vs. map_of kvs name = Some (JArray vs)) \<or>
                 (\<exists>items. map_of kvs name = Some (JObject items)) \<or>
                 (\<exists>v. map_of kvs name = Some v \<and> (\<forall>s. v \<noteq> JString s) \<and>
                    lax_str lib v = None)))"
  from parser_parse_rejects [OF this(2)] obtain failure where
    "parser_parse lib raw = Inl (parse_error lib raw failure)" ..
  with reply show "\<exists>failure. fst (get_persian_music_prescription lib user_input key w) =
      Returned (Str (''Error: '' @ exception_text (parse_error lib raw failure)))"
    unfolding run_accepted [OF assms(2)] msgs_def fst_conv by auto
next
  fix e
  show "fst (get_persian_music_prescription lib user_input key w) \<noteq> Raised e"
    unfolding run_accepted [OF assms(2)] by simp
qed

theorem failures_are_returned_witness:
  "ChatOpenAI_init scripted (ChatOpenAI_config ''sk-test'') = None \<and>
   fst (get_persian_music_prescription scripted ''I am sad.'' ''sk-test'' (fresh [])) =
     Returned (Str (''Error: '' @ ''Connection error.'')) \<and>
   fst (get_persian_music_prescription scripted ''I am sad.'' ''sk-test''
          (fresh [Inr completion_number])) =
     Returned (Str (''Error: '' @ ''Failed to parse MusicPrescription from completion '' @
       completion_number))"
proof -
  have msg: "exception_text (parse_error scripted raw failure) =
      ''Failed to parse MusicPrescription from completion '' @ raw" for raw failure
    by (simp add: scripted_def)
  have lax: "lax_str scripted v = None" for v
    by (simp add: scripted_def)
  have number: "\<exists>kvs name. json_decode scripted completion_number = Some (JObject kvs) \<and>
        name \<in> set (map fst MusicPrescription_schema) \<and>
        (\<exists>v. map_of kvs name = Some v \<and> (\<forall>s. v \<noteq> JString s) \<and> lax_str scripted v = None)"
    unfolding scripted_decode_number
    by (simp add: lax MusicPrescription_schema_def ex_disj_distrib conj_disj_distribR)
  note run1 = failures_are_returned [OF scripted_accepts, of "fresh []" "''I am sad.''"]
  note run2 = failures_are_returned [OF scripted_accepts, of "fresh [Inr completion_number]" "''I am sad.''"]
  from run1 have 1: "fst (get_persian_music_prescription scripted ''I am sad.'' ''sk-test'' (fresh [])) =
     Returned (Str (''Error: '' @ ''Connection error.''))"
    unfolding scripted_invoke fst_conv by simp
  from run2 number have 2: "fst (get_persian_music_prescription scripted ''I am sad.'' ''sk-test''
          (fresh [Inr completion_number])) =
     Returned (Str (''Error: '' @ ''Failed to parse MusicPrescription from completion '' @
       completion_number))"
    unfolding scripted_invoke fst_conv msg by blast
  from scripted_accepts 1 2 show ?thesis by (intro conjI)
qed

subsection \<open>C3: a malformed completion is rejected\<close>



subsection \<open>C4: a missing credential stops the script before any request\<close>

text \<open>
  C4: when the access credential is missing, that is when the environment variable is not
  set or is empty, the script reports it (it prints the request to set the variable) and
  does nothing else: the function is not called, the world is left as it was, and the log
  of requests to the service gains no entry. The function has no check of its own; when
  it is called and the constructor of the client refuses the configuration, the call ends
  there, before any request, and the world is again left as it was.
\<close>

theorem missing_credential_stops_script:
  fixes lib :: "'w libraries"
  assumes "my_api_key = None \<or> my_api_key = Some []"
  shows "main lib my_api_key w =
           ((None, [''Please set your OPENAI_API_KEY environment variable.'']), w) \<and>
         calls (snd (main lib my_api_key w)) = calls w \<and>
         (\<forall>e. ChatOpenAI_init lib (ChatOpenAI_config key) = Some e \<longrightarrow>
            get_persian_music_prescription lib user_input key w = (Raised e, w))"
  using assms by (auto simp: main_def run_refused)

theorem missing_credential_stops_script_witness:
  "main scripted None (fresh [Inr completion_dashti]) =
     ((None, [''Please set your OPENAI_API_KEY environment variable.'']),
      fresh [Inr completion_dashti]) \<and>
   main scripted (Some []) (fresh [Inr completion_dashti]) =
     ((None, [''Please set your OPENAI_API_KEY environment variable.'']),
      fresh [Inr completion_dashti]) \<and>
   calls (snd (main scripted None (fresh [Inr completion_dashti]))) = [] \<and>
   get_persian_music_prescription scripted ''I am sad.'' [] (fresh [Inr completion_dashti]) =
     (Raised (Exception ''Did not find openai_api_key''), fresh [Inr completion_dashti])"
proof -
  have refused: "ChatOpenAI_init scripted (ChatOpenAI_config []) =
      Some (Exception ''Did not find openai_api_key'')"
    by (simp add: scripted_def ChatOpenAI_config_def)
  from missing_credential_stops_script
    [of None scripted "fresh [Inr completion_dashti]" "[]" "''I am sad.''"]
    missing_credential_stops_script
    [of "Some []" scripted "fresh [Inr completion_dashti]" "[]" "''I am sad.''"]
    refused
  show ?thesis by (simp add: fresh_def)
qed

subsection \<open>C5: what the request consists of\<close>

text \<open>
  C5: for every user input, the one request that a call submits has two messages: the
  system message is the knowledge base, character for character, and the human message
  is the label \<^verbatim>\<open>PATIENT SYMPTOMS: \<close>, the user input as it was given (nothing checked,
  cut or escaped, braces included), the fixed sentence asking for the analysis, and the
  format instructions that the output parser renders from the schema of
  \<^verbatim>\<open>MusicPrescription\<close>, whose fields are exactly the six.
\<close>

theorem request_contents:
  fixes lib :: "'w libraries"
  assumes "ChatOpenAI_init lib (ChatOpenAI_config key) = None"
  shows "calls (snd (get_persian_music_prescription lib user_input key w)) =
           calls w @
           [\<lparr>req_config = ChatOpenAI_config key,
             req_messages =
               [SystemMessage PHARMACOPEIA_CONTEXT,
                HumanMessage (''PATIENT SYMPTOMS: '' @ user_input @
                  ''\<newline>\<newline>Analyze the symptoms and provide the prescription.\<newline>'' @
                  get_format_instructions lib MusicPrescription_schema)],
             req_method = Invoke\<rparr>] \<and>
         map fst MusicPrescription_schema =
           [''diagnosis'', ''mode_name'', ''archetype'', ''neuroscience_mechanism'',
            ''search_query'', ''activity_suggestion'']"
  by (simp add: run_accepted [OF assms] MusicPrescription_schema_def)

theorem request_contents_witness:
  "ChatOpenAI_init scripted (ChatOpenAI_config ''sk-test'') = None \<and>
   map req_messages
     (calls (snd (get_persian_music_prescription scripted ''Je suis {triste}'' ''sk-test'' (fresh [])))) =
     [[SystemMessage PHARMACOPEIA_CONTEXT,
       HumanMessage (''PATIENT SYMPTOMS: Je suis {triste}'' @
         ''\<newline>\<newline>Analyze the symptoms and provide the prescription.\<newline>'' @
         ''Fields: diagnosis;mode_name;archetype;neuroscience_mechanism;search_query;activity_suggestion;'')]]"
  using request_contents [OF scripted_accepts, of "''Je suis {triste}''" "fresh []"]
  by (simp add: scripted_accepts fresh_def scripted_format)

subsection \<open>C6: the configuration of the service\<close>



subsection \<open>C7: the attempts of one call\<close>




subsection \<open>C8: the knowledge base is a constant\<close>

text \<open>
  C8: in any sequence of calls, with any inputs and keys, from any world, every request
  that reaches the service has the knowledge base, unchanged, as its first message. The
  knowledge base is a constant of the module that no operation assigns to.
\<close>

theorem knowledge_base_constant:
  fixes lib :: "'w libraries"
  shows "\<forall>c\<in>set (drop (length (calls w))
             (calls (fold (\<lambda>(user_input, key) w.
                       snd (get_persian_music_prescription lib user_input key w)) inputs w))).
           hd (req_messages c) = SystemMessage PHARMACOPEIA_CONTEXT"
proof -
  from calls_fold [of lib inputs w] obtain cs where
    "calls (fold (\<lambda>(user_input, key) w. snd (get_persian_music_prescription lib user_input key w))
              inputs w) = calls w @ cs"
    "\<forall>c\<in>set cs. \<exists>human. req_messages c = [SystemMessage PHARMACOPEIA_CONTEXT, HumanMessage human]"
    by blast
  then show ?thesis by auto
qed

theorem knowledge_base_constant_witness:
  "map (\<lambda>c. hd (req_messages c))
     (calls (fold (\<lambda>(user_input, key) w. snd (get_persian_music_prescription scripted user_input key w))
        [(''I am sad.'', ''sk-test''), (''Deep focus, please.'', ''sk-other'')] (fresh []))) =
   [SystemMessage PHARMACOPEIA_CONTEXT, SystemMessage PHARMACOPEIA_CONTEXT]"
proof -
  have other: "ChatOpenAI_init scripted (ChatOpenAI_config ''sk-other'') = None"
    by (simp add: scripted_def ChatOpenAI_config_def)
  have "length (calls (fold (\<lambda>(user_input, key) w. snd (get_persian_music_prescription scripted user_input key w))
        [(''I am sad.'', ''sk-test''), (''Deep focus, please.'', ''sk-other'')] (fresh []))) = 2"
    by (simp add: run_accepted [OF scripted_accepts] run_accepted [OF other] fresh_def)
  then obtain c d where cd:
    "calls (fold (\<lambda>(user_input, key) w. snd (get_persian_music_prescription scripted user_input key w))
        [(''I am sad.'', ''sk-test''), (''Deep focus, please.'', ''sk-other'')] (fresh [])) = [c, d]"
    by (auto simp: length_Suc_conv numeral_2_eq_2)
  from knowledge_base_constant [of "fresh []" scripted
      "[(''I am sad.'', ''sk-test''), (''Deep focus, please.'', ''sk-other'')]"]
  show ?thesis
    unfolding cd by (simp add: fresh_def)
qed

subsection \<open>C9: the shape of the returned value\<close>

text \<open>
  C9 says that on any failure the result is the text \<^verbatim>\<open>Error: \<close> followed by the text
  of the exception, so that a caller meets two cases only. A failure of the constructor of
  the client is a third: it is raised, not returned.
\<close>

theorem raised_not_returned_counterexample:
  "get_persian_music_prescription scripted ''Deep focus, please.'' [] (fresh []) =
     (Raised (Exception ''Did not find openai_api_key''), fresh [])"
  by (simp add: run_refused [OF scripted_refuses])

text \<open>
  C9, as the code has it: a call ends in one of three ways. It returns a
  \<^verbatim>\<open>MusicPrescription\<close>, when the client gave a completion and the parser accepted it.
  It returns a text that is \<^verbatim>\<open>Error: \<close> followed by the text of the exception, when
  the client or the parser raised inside \<^verbatim>\<open>chain.invoke\<close>. Or, when the constructor of
  the client raised, it returns nothing and that exception escapes. A returned value is
  never anything but a record or such a text.
\<close>

theorem return_value_shape:
  fixes lib :: "'w libraries"
  defines "msgs \<equiv> \<lambda>user_input.
     [SystemMessage PHARMACOPEIA_CONTEXT,
      HumanMessage (''PATIENT SYMPTOMS: '' @ user_input @
        ''\<newline>\<newline>Analyze the symptoms and provide the prescription.\<newline>'' @
        get_format_instructions lib MusicPrescription_schema)]"
  defines "reply \<equiv> \<lambda>user_input key w.
     fst (llm_invoke lib (service_state w) (ChatOpenAI_config key) (msgs user_input))"
  shows "(\<exists>raw rx. ChatOpenAI_init lib (ChatOpenAI_config key) = None \<and>
            reply user_input key w = Inr raw \<and> parser_parse lib raw = Inr rx \<and>
            fst (get_persian_music_prescription lib user_input key w) = Returned (Rx rx)) \<or>
         (\<exists>e. ChatOpenAI_init lib (ChatOpenAI_config key) = None \<and>
            (reply user_input key w = Inl e \<or>
             (\<exists>raw. reply user_input key w = Inr raw \<and> parser_parse lib raw = Inl e)) \<and>
            fst (get_persian_music_prescription lib user_input key w) =
              Returned (Str (''Error: '' @ exception_text e))) \<or>
         (\<exists>e. ChatOpenAI_init lib (ChatOpenAI_config key) = Some e \<and>
            get_persian_music_prescription lib user_input key w = (Raised e, w))"
proof (cases "ChatOpenAI_init lib (ChatOpenAI_config key)")
  case None
  show ?thesis
    unfolding reply_def msgs_def run_accepted [OF None] fst_conv
    by (auto simp: None split: sum.splits)
next
  case (Some e)
  show ?thesis by (simp add: run_refused [OF Some] Some)
qed

theorem return_value_shape_witness:
  "fst (get_persian_music_prescription scripted ''I am sad.'' ''sk-test''
          (fresh [Inr completion_dashti])) =
     Returned (Rx \<lparr>diagnosis = ''Heartbreak.'', mode_name = ''Avaz-e Dashti'',
       archetype = ''The Shepherd'', neuroscience_mechanism = ''Prolactin release'',
       search_query = ''Kayhan Kalhor Dashti Improvisation'',
       activity_suggestion = ''Let yourself cry.''\<rparr>) \<and>
   fst (get_persian_music_prescription scripted ''I am sad.'' ''sk-test'' (fresh [])) =
     Returned (Str (''Error: '' @ ''Connection error.''))"
  using return_value_shape [where lib = scripted and key = "''sk-test''" and user_input = "''I am sad.''"
      and w = "fresh [Inr completion_dashti]"]
    return_value_shape [where lib = scripted and key = "''sk-test''" and user_input = "''I am sad.''"
      and w = "fresh []"]
  by (simp add: scripted_accepts scripted_invoke scripted_parse_dashti)

subsection \<open>C10: the empty input takes the ordinary path\<close>

text \<open>
  C10: the function checks nothing about the user input. For the empty text it builds
  and submits the request as for any other input, with nothing after the label; it
  returns what any input returns for which the service answers the same; and when the
  service answers with a valid completion the call succeeds.
\<close>

theorem empty_input_not_special:
  fixes lib :: "'w libraries"
  defines "msgs \<equiv> \<lambda>user_input.
     [SystemMessage PHARMACOPEIA_CONTEXT,
      HumanMessage (''PATIENT SYMPTOMS: '' @ user_input @
        ''\<newline>\<newline>Analyze the symptoms and provide the prescription.\<newline>'' @
        get_format_instructions lib MusicPrescription_schema)]"
  assumes "ChatOpenAI_init lib (ChatOpenAI_config key) = None"
  shows "calls (snd (get_persian_music_prescription lib [] key w)) =
           calls w @
           [\<lparr>req_config = ChatOpenAI_config key, req_messages = msgs [], req_method = Invoke\<rparr>] \<and>
         (\<forall>user_input.
            fst (llm_invoke lib (service_state w) (ChatOpenAI_config key) (msgs [])) =
            fst (llm_invoke lib (service_state w) (ChatOpenAI_config key) (msgs user_input)) \<longrightarrow>
            fst (get_persian_music_prescription lib [] key w) =
            fst (get_persian_music_prescription lib user_input key w)) \<and>
         (\<forall>raw rx.
            fst (llm_invoke lib (service_state w) (ChatOpenAI_config key) (msgs [])) = Inr raw \<longrightarrow>
            parser_parse lib raw = Inr rx \<longrightarrow>
            fst (get_persian_music_prescription lib [] key w) = Returned (Rx rx))"
  unfolding msgs_def by (simp add: run_accepted [OF assms(2)])

theorem empty_input_not_special_witness:
  "ChatOpenAI_init scripted (ChatOpenAI_config ''sk-test'') = None \<and>
   fst (get_persian_music_prescription scripted [] ''sk-test'' (fresh [Inr completion_dashti])) =
     Returned (Rx \<lparr>diagnosis = ''Heartbreak.'', mode_name = ''Avaz-e Dashti'',
       archetype = ''The Shepherd'', neuroscience_mechanism = ''Prolactin release'',
       search_query = ''Kayhan Kalhor Dashti Improvisation'',
       activity_suggestion = ''Let yourself cry.''\<rparr>) \<and>
   fst (get_persian_music_prescription scripted [] ''sk-test'' (fresh [Inr completion_dashti])) =
   fst (get_persian_music_prescription scripted ''I am sad.'' ''sk-test'' (fresh [Inr completion_dashti])) \<and>
   length (calls (snd (get_persian_music_prescription scripted [] ''sk-test''
     (fresh [Inr completion_dashti])))) = 1"
proof -
  note run = empty_input_not_special [OF scripted_accepts, of "fresh [Inr completion_dashti]"]
  have reply: "fst (llm_invoke scripted (service_state (fresh [Inr completion_dashti])) cfg msgs) =
      Inr completion_dashti" for cfg msgs
    by (simp add: scripted_invoke)
  from run reply scripted_parse_dashti
  have 1: "fst (get_persian_music_prescription scripted [] ''sk-test'' (fresh [Inr completion_dashti])) =
     Returned (Rx \<lparr>diagnosis = ''Heartbreak.'', mode_name = ''Avaz-e Dashti'',
       archetype = ''The Shepherd'', neuroscience_mechanism = ''Prolactin release'',
       search_query = ''Kayhan Kalhor Dashti Improvisation'',
       activity_suggestion = ''Let yourself cry.''\<rparr>)"
    by blast
  from run have "\<forall>user_input.
      fst (llm_invoke scripted (service_state (fresh [Inr completion_dashti]))
            (ChatOpenAI_config ''sk-test'')
            [SystemMessage PHARMACOPEIA_CONTEXT,
             HumanMessage (''PATIENT SYMPTOMS: '' @ [] @
               ''\<newline>\<newline>Analyze the symptoms and provide the prescription.\<newline>'' @
               get_format_instructions scripted MusicPrescription_schema)]) =
      fst (llm_invoke scripted (service_state (fresh [Inr completion_dashti]))
            (ChatOpenAI_config ''sk-test'')
            [SystemMessage PHARMACOPEIA_CONTEXT,
             HumanMessage (''PATIENT SYMPTOMS: '' @ user_input @
               ''\<newline>\<newline>Analyze the symptoms and provide the prescription.\<newline>'' @
               get_format_instructions scripted MusicPrescription_schema)]) \<longrightarrow>
      fst (get_persian_music_prescription scripted [] ''sk-test'' (fresh [Inr completion_dashti])) =
      fst (get_persian_music_prescription scripted user_input ''sk-test''
            (fresh [Inr completion_dashti]))"
    by blast
  then have 2: "fst (get_persian_music_prescription scripted [] ''sk-test'' (fresh [Inr completion_dashti])) =
      fst (get_persian_music_prescription scripted ''I am sad.'' ''sk-test''
            (fresh [Inr completion_dashti]))"
    unfolding reply by blast
  from run have 3: "length (calls (snd (get_persian_music_prescription scripted [] ''sk-test''
     (fresh [Inr completion_dashti])))) = 1"
    by (simp add: fresh_def)
  from scripted_accepts 1 2 3 show ?thesis by (intro conjI)
qed

end
